theory Spec2Isabelle
  imports Complex_Main "HOL-Library.Monad_Syntax"
begin

section \<open>Data model\<close>

text \<open>
  A JavaScript string is a \<open>string\<close> of HOL, a list of characters with code points
  up to 255; strings with other characters are outside the model.

  A browser \<open>File\<close> as the components read it: \<open>file.name\<close>, \<open>file.type\<close> (the MIME
  type) and \<open>file.size\<close> (bytes). The fields carry a prefix because \<open>size\<close> is a
  constant of HOL; the state cell \<open>file\<close> of the page is \<open>stored_file\<close> below, since
  \<open>file\<close> is a keyword of Isabelle.
\<close>

record js_file =
  file_name :: string
  file_type :: string
  file_size :: nat

text \<open>
  A value produced by \<open>response.json()\<close>. A JavaScript number is kept as a real: the
  components never calculate with a number of the response, they only pass it on or
  test whether it is truthy. \<open>JObj\<close> lists the own properties of the object in the
  order \<open>Object.entries\<close> enumerates them. The value \<open>undefined\<close>, which reading a
  missing property yields, is \<open>None\<close> of \<open>json option\<close>.
\<close>

datatype json =
    JNull
  | JBool bool
  | JNum real
  | JStr string
  | JArr "json list"
  | JObj "(string \<times> json) list"

type_synonym jsval = "json option"

text \<open>The state of the page component \<open>ScanResume\<close> (its four \<open>useState\<close> cells).\<close>

record ScanResume_state =
  stored_file :: "js_file option"
  jobDescription :: string
  isLoading :: bool
  results :: json

definition ScanResume_init :: ScanResume_state where
  "ScanResume_init = \<lparr>stored_file = None, jobDescription = [], isLoading = False, results = JNull\<rparr>"

subsection \<open>What the page does to the outside world\<close>

text \<open>
  An entry of a \<open>FormData\<close>: \<open>append\<close> stores a \<open>File\<close> as it is and turns every
  other value into a string (\<open>null\<close> becomes the string \<open>null\<close>).
\<close>

datatype form_value = FormFile js_file | FormString string

record http_request =
  http_method :: string
  http_url :: string
  http_body :: "(string \<times> form_value) list"

text \<open>
  The two kinds of call that leave \<open>scanResume\<close>: \<open>fetch\<close> and \<open>console.error\<close>
  (label, then the text of the second argument).
\<close>

datatype effect = Fetch http_request | ConsoleError string string

text \<open>
  What comes back from the awaited \<open>fetch\<close>. The promise is rejected (with an error,
  kept as its message) or resolves to a response; \<open>response.json()\<close> in turn is
  rejected (\<open>Inl\<close>, the body is not JSON) or yields the parsed body (\<open>Inr\<close>).
\<close>

record response =
  ok :: bool
  statusText :: string
  json_body :: "string + json"

datatype fetch_result = Rejected string | Resolved response

section \<open>The page: ScanResume.jsx\<close>

definition formData_file :: "js_file option \<Rightarrow> form_value" where
  "formData_file resumeFile =
     (case resumeFile of None \<Rightarrow> FormString ''null'' | Some f \<Rightarrow> FormFile f)"

text \<open>
  \<open>scanResume\<close> up to its \<open>await fetch(...)\<close>: \<open>setIsLoading(true)\<close>, the form data,
  the request.
\<close>

definition scanResume_request :: "js_file option \<Rightarrow> string \<Rightarrow> http_request" where
  "scanResume_request resumeFile jd =
     \<lparr>http_method = ''POST'',
      http_url = ''http://localhost:5000/scan-resume/'',
      http_body = [(''file'', formData_file resumeFile), (''job_description'', FormString jd)]\<rparr>"

definition scanResume_begin ::
  "ScanResume_state \<Rightarrow> js_file option \<Rightarrow> string \<Rightarrow> ScanResume_state \<times> effect list" where
  "scanResume_begin s resumeFile jd =
     (s\<lparr>isLoading := True\<rparr>, [Fetch (scanResume_request resumeFile jd)])"

text \<open>
  \<open>scanResume\<close> after the \<open>await\<close>: the \<open>try\<close> body, the \<open>catch\<close> and the
  \<open>finally\<close>. The first component is the state before \<open>finally\<close>.
\<close>

definition scanResume_settle ::
  "ScanResume_state \<Rightarrow> fetch_result \<Rightarrow> ScanResume_state \<times> effect list" where
  "scanResume_settle s r =
     (case r of
        Rejected err \<Rightarrow> (s, [ConsoleError ''Error:'' err])
      | Resolved resp \<Rightarrow>
          if ok resp then
            (case json_body resp of
               Inr data \<Rightarrow> (s\<lparr>results := data\<rparr>, [])
             | Inl err \<Rightarrow> (s, [ConsoleError ''Error:'' err]))
          else (s, [ConsoleError ''Error scanning resume:'' (statusText resp)]))"

definition scanResume_end ::
  "ScanResume_state \<Rightarrow> fetch_result \<Rightarrow> ScanResume_state \<times> effect list" where
  "scanResume_end s r =
     (let (s1, fx) = scanResume_settle s r in (s1\<lparr>isLoading := False\<rparr>, fx))"

text \<open>One whole run of \<open>scanResume\<close>, the awaited \<open>fetch\<close> settling with \<open>r\<close>.\<close>

definition scanResume ::
  "ScanResume_state \<Rightarrow> js_file option \<Rightarrow> string \<Rightarrow> fetch_result \<Rightarrow> ScanResume_state \<times> effect list" where
  "scanResume s resumeFile jd r =
     (let (s1, fx1) = scanResume_begin s resumeFile jd;
          (s2, fx2) = scanResume_end s1 r
      in (s2, fx1 @ fx2))"

text \<open>
  \<open>handleFileUpload(uploadedFile, jd)\<close>, as far as it runs before anything is awaited;
  a call with one argument has \<open>jd = None\<close> (\<open>undefined\<close>).
\<close>

definition handleFileUpload ::
  "ScanResume_state \<Rightarrow> js_file option \<Rightarrow> string option \<Rightarrow> ScanResume_state \<times> effect list" where
  "handleFileUpload s uploadedFile jd =
     (case jd of
        Some j \<Rightarrow> scanResume_begin s uploadedFile j
      | None \<Rightarrow> (s\<lparr>stored_file := uploadedFile\<rparr>, []))"

definition handleJdChange :: "ScanResume_state \<Rightarrow> string \<Rightarrow> ScanResume_state" where
  "handleJdChange s jd = s\<lparr>jobDescription := jd\<rparr>"

fun is_fetch :: "effect \<Rightarrow> bool" where
  "is_fetch (Fetch _) = True"
| "is_fetch (ConsoleError _ _) = False"

section \<open>The upload component: ResumeUploadComponent.jsx\<close>

text \<open>
  The three \<open>useState\<close> cells of the component; its own \<open>file\<close> cell is
  \<open>selected_file\<close> here.
\<close>

record Upload_state =
  dragActive :: bool
  selected_file :: "js_file option"
  jd :: string

definition Upload_init :: Upload_state where
  "Upload_init = \<lparr>dragActive = False, selected_file = None, jd = []\<rparr>"

text \<open>
  A call of one of the two callback props, \<open>onFileUpload\<close> (with one or two
  arguments) and \<open>onJdChange\<close>. A handler returns the new state of the component and
  the calls it made, in order.
\<close>

datatype callback = OnFileUpload "js_file option" "string option" | OnJdChange string

definition handleDrag :: "Upload_state \<Rightarrow> string \<Rightarrow> Upload_state" where
  "handleDrag u etype =
     (if etype = ''dragenter'' \<or> etype = ''dragover'' then u\<lparr>dragActive := True\<rparr>
      else if etype = ''dragleave'' then u\<lparr>dragActive := False\<rparr>
      else u)"

text \<open>
  \<open>files && files[0]\<close> on a \<open>FileList\<close>: \<open>None\<close> for a missing list and for an
  empty one (\<open>files[0]\<close> is \<open>undefined\<close> there), the first file otherwise.
\<close>

fun first_file :: "js_file list option \<Rightarrow> js_file option" where
  "first_file None = None"
| "first_file (Some []) = None"
| "first_file (Some (f # fs)) = Some f"

definition handleDrop :: "Upload_state \<Rightarrow> js_file list option \<Rightarrow> Upload_state \<times> callback list" where
  "handleDrop u files =
     (let u1 = u\<lparr>dragActive := False\<rparr> in
      case first_file files of
        Some droppedFile \<Rightarrow>
          (u1\<lparr>selected_file := Some droppedFile\<rparr>, [OnFileUpload (Some droppedFile) None])
      | None \<Rightarrow> (u1, []))"

definition handleChange :: "Upload_state \<Rightarrow> js_file list option \<Rightarrow> Upload_state \<times> callback list" where
  "handleChange u files =
     (case first_file files of
        Some selectedFile \<Rightarrow>
          (u\<lparr>selected_file := Some selectedFile\<rparr>, [OnFileUpload (Some selectedFile) None])
      | None \<Rightarrow> (u, []))"

definition Upload_handleJdChange :: "Upload_state \<Rightarrow> string \<Rightarrow> Upload_state \<times> callback list" where
  "Upload_handleJdChange u v = (u\<lparr>jd := v\<rparr>, [OnJdChange v])"

text \<open>
  \<open>String.prototype.trim\<close>: among the code points up to 255, tab, line feed,
  vertical tab, form feed, carriage return, space and the no-break space are white
  space.
\<close>

definition js_whitespace :: "char \<Rightarrow> bool" where
  "js_whitespace c = (of_char c \<in> {9, 10, 11, 12, 13, 32, 160 :: nat})"

definition trim :: "string \<Rightarrow> string" where
  "trim s = rev (dropWhile js_whitespace (rev (dropWhile js_whitespace s)))"

text \<open>The submit button: \<open>disabled={!file || !jd.trim() || isLoading}\<close> and its \<open>onClick\<close>.\<close>

definition scan_button_disabled :: "Upload_state \<Rightarrow> bool \<Rightarrow> bool" where
  "scan_button_disabled u loading = (selected_file u = None \<or> trim (jd u) = [] \<or> loading)"

definition scan_button_onClick :: "Upload_state \<Rightarrow> callback list" where
  "scan_button_onClick u = [OnFileUpload (selected_file u) (Some (jd u))]"

section \<open>The page with its upload component, event by event\<close>

text \<open>
  \<open>ScanResume\<close> passes \<open>handleFileUpload\<close> as \<open>onFileUpload\<close> and \<open>handleJdChange\<close>
  as \<open>onJdChange\<close>.
\<close>

fun deliver :: "ScanResume_state \<Rightarrow> callback \<Rightarrow> ScanResume_state \<times> effect list" where
  "deliver s (OnFileUpload f j) = handleFileUpload s f j"
| "deliver s (OnJdChange v) = (handleJdChange s v, [])"

fun deliver_all :: "ScanResume_state \<Rightarrow> callback list \<Rightarrow> ScanResume_state \<times> effect list" where
  "deliver_all s [] = (s, [])"
| "deliver_all s (c # cs) =
     (let (s1, fx1) = deliver s c; (s2, fx2) = deliver_all s1 cs in (s2, fx1 @ fx2))"

text \<open>
  The page, the upload component inside it, and the number of \<open>scanResume\<close> calls
  that wait for their \<open>fetch\<close>.
\<close>

record app =
  page :: ScanResume_state
  upload :: Upload_state
  pending :: nat

definition app_init :: app where
  "app_init = \<lparr>page = ScanResume_init, upload = Upload_init, pending = 0\<rparr>"

text \<open>
  What can happen to the page: a drag event of the given \<open>e.type\<close> or a drop on the
  drop zone, a change of the file input, a change of the text area, a click on the
  button, and the \<open>fetch\<close> of a waiting \<open>scanResume\<close> settling. The file input and the
  text area are \<open>disabled={isLoading}\<close> and the button is disabled as above; a
  disabled control gives no event.
\<close>

datatype event =
    DragEvent string
  | DropEvent "js_file list option"
  | ChangeEvent "js_file list option"
  | JdInput string
  | ClickScan
  | FetchSettled fetch_result

definition handled :: "app \<Rightarrow> Upload_state \<times> callback list \<Rightarrow> app \<times> effect list" where
  "handled a h =
     (let (p, fx) = deliver_all (page a) (snd h) in
      (a\<lparr>page := p, upload := fst h, pending := pending a + length (filter is_fetch fx)\<rparr>, fx))"

fun step :: "app \<Rightarrow> event \<Rightarrow> app \<times> effect list" where
  "step a (DragEvent etype) = (a\<lparr>upload := handleDrag (upload a) etype\<rparr>, [])"
| "step a (DropEvent files) = handled a (handleDrop (upload a) files)"
| "step a (ChangeEvent files) =
     (if isLoading (page a) then (a, []) else handled a (handleChange (upload a) files))"
| "step a (JdInput v) =
     (if isLoading (page a) then (a, []) else handled a (Upload_handleJdChange (upload a) v))"
| "step a ClickScan =
     (if scan_button_disabled (upload a) (isLoading (page a)) then (a, [])
      else handled a (upload a, scan_button_onClick (upload a)))"
| "step a (FetchSettled r) =
     (if pending a = 0 then (a, [])
      else let (p, fx) = scanResume_end (page a) r in
           (a\<lparr>page := p, pending := pending a - 1\<rparr>, fx))"

fun run :: "app \<Rightarrow> event list \<Rightarrow> app \<times> effect list" where
  "run a [] = (a, [])"
| "run a (e # es) =
     (let (a1, fx1) = step a e; (a2, fx2) = run a1 es in (a2, fx1 @ fx2))"

text \<open>The shape of a request that carries a file and a job description that is not blank.\<close>

fun scan_request_ok :: "effect \<Rightarrow> bool" where
  "scan_request_ok (Fetch req) =
     (case http_body req of
        [(k1, FormFile f), (k2, FormString j)] \<Rightarrow>
          k1 = ''file'' \<and> k2 = ''job_description'' \<and> trim j \<noteq> []
      | _ \<Rightarrow> False)"
| "scan_request_ok (ConsoleError _ _) = True"

section \<open>The preview component: its state, its effects, its preview generator\<close>

text \<open>The three shapes of \<open>fileContent\<close>, told apart by their \<open>type\<close> field.\<close>

datatype file_content =
    PdfContent string
  | TextContent string
  | DocumentContent string nat string

fun content_type :: "file_content \<Rightarrow> string" where
  "content_type (PdfContent url) = ''pdf''"
| "content_type (TextContent content) = ''text''"
| "content_type (DocumentContent name sz url) = ''document''"

text \<open>
  The five \<open>useState\<close> cells of \<open>ResumePreviewComponent\<close>, and \<open>scanInterval\<close>: whether
  the timer that the animation effect started is running.
\<close>

record Preview_state =
  fileContent :: "file_content option"
  fileUrl :: "string option"
  isLoadingPreview :: bool
  previewError :: "string option"
  scanPosition :: int
  scanInterval :: bool

definition Preview_init :: Preview_state where
  "Preview_init =
     \<lparr>fileContent = None, fileUrl = None, isLoadingPreview = False, previewError = None,
      scanPosition = 0, scanInterval = False\<rparr>"

subsection \<open>The scanning animation\<close>

text \<open>The update the timer applies every 50 ms: \<open>prev => (prev >= 100 ? 0 : prev + 2)\<close>.\<close>

definition scan_tick :: "int \<Rightarrow> int" where
  "scan_tick prev = (if prev \<ge> 100 then 0 else prev + 2)"

text \<open>The effect with dependency \<open>[isLoading]\<close> and the cleanup it returns.\<close>

definition scan_effect :: "bool \<Rightarrow> Preview_state \<Rightarrow> Preview_state" where
  "scan_effect loading s = (if loading then s\<lparr>scanInterval := True\<rparr> else s\<lparr>scanPosition := 0\<rparr>)"

definition scan_cleanup :: "Preview_state \<Rightarrow> Preview_state" where
  "scan_cleanup s = s\<lparr>scanInterval := False\<rparr>"

text \<open>
  The component with the value of its \<open>isLoading\<close> prop. It is mounted (the effect runs
  once); after that it is rendered again with a value of the prop (cleanup and effect
  run when the value changed), or the timer fires (when it is running).
\<close>

datatype anim_event = Rerender bool | IntervalTick

definition mount :: "bool \<Rightarrow> bool \<times> Preview_state" where
  "mount loading = (loading, scan_effect loading Preview_init)"

fun anim_step :: "bool \<times> Preview_state \<Rightarrow> anim_event \<Rightarrow> bool \<times> Preview_state" where
  "anim_step (loading, s) (Rerender b) =
     (if b = loading then (loading, s) else (b, scan_effect b (scan_cleanup s)))"
| "anim_step (loading, s) IntervalTick =
     (if scanInterval s then (loading, s\<lparr>scanPosition := scan_tick (scanPosition s)\<rparr>)
      else (loading, s))"

definition anim_run :: "bool \<times> Preview_state \<Rightarrow> anim_event list \<Rightarrow> bool \<times> Preview_state" where
  "anim_run c evs = foldl anim_step c evs"

subsection \<open>generatePreview\<close>

text \<open>\<open>haystack.includes(needle)\<close> on strings (\<open>includes\<close> is a keyword of Isabelle).\<close>

fun str_includes :: "string \<Rightarrow> string \<Rightarrow> bool" where
  "str_includes [] needle = (needle = [])"
| "str_includes (c # cs) needle =
     (take (length needle) (c # cs) = needle \<or> str_includes cs needle)"

text \<open>
  One whole run of \<open>generatePreview(file)\<close>. \<open>url\<close> is what \<open>URL.createObjectURL(file)\<close>
  does and \<open>text\<close> what the awaited \<open>file.text()\<close> does: \<open>Inl\<close> an error thrown (its
  message), \<open>Inr\<close> the value. The first component of \<open>generatePreview_try\<close> is the
  state before \<open>finally\<close>.
\<close>

definition preview_failed :: "Preview_state \<Rightarrow> string \<Rightarrow> Preview_state \<times> effect list" where
  "preview_failed s err =
     (s\<lparr>previewError := Some ''Failed to load preview''\<rparr>, [ConsoleError ''Preview error:'' err])"

definition generatePreview_try ::
  "Preview_state \<Rightarrow> js_file \<Rightarrow> string + string \<Rightarrow> string + string \<Rightarrow> Preview_state \<times> effect list" where
  "generatePreview_try s f url text =
     (case url of
        Inl err \<Rightarrow> preview_failed s err
      | Inr u \<Rightarrow>
          (let s1 = s\<lparr>fileUrl := Some u\<rparr> in
           if file_type f = ''application/pdf'' then (s1\<lparr>fileContent := Some (PdfContent u)\<rparr>, [])
           else if str_includes (file_type f) ''text'' then
             (case text of
                Inl err \<Rightarrow> preview_failed s1 err
              | Inr t \<Rightarrow> (s1\<lparr>fileContent := Some (TextContent t)\<rparr>, []))
           else (s1\<lparr>fileContent := Some (DocumentContent (file_name f) (file_size f) u)\<rparr>, [])))"

definition generatePreview ::
  "Preview_state \<Rightarrow> js_file \<Rightarrow> string + string \<Rightarrow> string + string \<Rightarrow> Preview_state \<times> effect list" where
  "generatePreview s f url text =
     (let s0 = s\<lparr>isLoadingPreview := True, previewError := None\<rparr>;
          (s1, fx) = generatePreview_try s0 f url text
      in (s1\<lparr>isLoadingPreview := False\<rparr>, fx))"

section \<open>What the components render\<close>

text \<open>
  The element tree a component returns. An element keeps its tag, its children and the
  attributes whose value is computed from props or state (\<open>src\<close>, \<open>href\<close>,
  \<open>download\<close>, \<open>style.width\<close>, \<open>style.top\<close>, \<open>style.background\<close>); \<open>className\<close>,
  constant attributes, the \<open>key\<close> of a list item and \<open>animationDelay\<close> (a constant or
  a function of the list index alone) are left out. A child that is \<open>false\<close> is not
  listed. A run of text is a list of pieces: literal text, an expression in braces
  with its value, \<open>SizeKB n\<close>, the text of \<open>(n / 1024).toFixed(1)\<close>, whose digits
  are not modelled, or the bullet U+2022, which no \<open>char\<close> of HOL stands for. Icons of
  \<open>lucide-react\<close> are leaves.
\<close>

datatype piece = Lit string | Dyn jsval | SizeKB nat | Bullet

datatype node =
    Elem string "(string \<times> piece list) list" "node list"
  | Txt "piece list"
  | Icon string

text \<open>The values of the expressions in a tree, in document order.\<close>

fun piece_values :: "piece \<Rightarrow> jsval list" where
  "piece_values (Lit t) = []"
| "piece_values (Dyn v) = [v]"
| "piece_values (SizeKB n) = []"
| "piece_values Bullet = []"

fun node_values :: "node \<Rightarrow> jsval list" where
  "node_values (Elem tag attrs children) =
     concat (map (\<lambda>a. concat (map piece_values (snd a))) attrs) @ concat (map node_values children)"
| "node_values (Txt ps) = concat (map piece_values ps)"
| "node_values (Icon i) = []"

subsection \<open>JavaScript on the parsed response\<close>

text \<open>\<open>if (results)\<close>: the truth value of a parsed JSON value.\<close>

fun truthy :: "json \<Rightarrow> bool" where
  "truthy JNull = False"
| "truthy (JBool b) = b"
| "truthy (JNum x) = (x \<noteq> 0)"
| "truthy (JStr t) = (t \<noteq> [])"
| "truthy (JArr xs) = True"
| "truthy (JObj kvs) = True"

text \<open>
  \<open>results.name\<close> for the property names the panel reads, on a truthy value: an own
  property of an object, \<open>undefined\<close> on anything else (no array, string, number or
  boolean has a property of one of these names).
\<close>

fun get_field :: "json \<Rightarrow> string \<Rightarrow> jsval" where
  "get_field (JObj kvs) k = map_of kvs k"
| "get_field _ k = None"

text \<open>Decimal digits of an index, for the keys of an array or a string.\<close>

fun decimal :: "nat \<Rightarrow> string" where
  "decimal n =
     (if n < 10 then [char_of (48 + n)] else decimal (n div 10) @ [char_of (48 + n mod 10)])"

definition indexed :: "json list \<Rightarrow> (string \<times> json) list" where
  "indexed xs = zip (map decimal [0..<length xs]) xs"

text \<open>
  \<open>Object.entries(v)\<close>: a TypeError (\<open>None\<close>) on \<open>undefined\<close> and \<open>null\<close>; the own
  properties of an object; index and element for an array, index and character for a
  string; nothing for a number or a boolean.
\<close>

fun Object_entries :: "jsval \<Rightarrow> (string \<times> json) list option" where
  "Object_entries None = None"
| "Object_entries (Some JNull) = None"
| "Object_entries (Some (JObj kvs)) = Some kvs"
| "Object_entries (Some (JArr xs)) = Some (indexed xs)"
| "Object_entries (Some (JStr t)) = Some (indexed (map (\<lambda>c. JStr [c]) t))"
| "Object_entries (Some (JNum x)) = Some []"
| "Object_entries (Some (JBool b)) = Some []"

text \<open>
  The elements \<open>v.map(...)\<close> goes through: those of an array; on every other value
  \<open>v.map\<close> is not a function and the call is a TypeError (\<open>None\<close>).
\<close>

fun map_elements :: "jsval \<Rightarrow> json list option" where
  "map_elements (Some (JArr xs)) = Some xs"
| "map_elements _ = None"

text \<open>\<open>key.replace('_', ' ')\<close>: the first underscore becomes a space.\<close>

fun replace_underscore :: "string \<Rightarrow> string" where
  "replace_underscore [] = []"
| "replace_underscore (c # cs) =
     (if c = CHR ''_'' then CHR '' '' # cs else c # replace_underscore cs)"

subsection \<open>The results panel\<close>

text \<open>
  The tree returned under \<open>if (results)\<close> in \<open>ResumePreviewComponent\<close>, and after the
  placeholder in \<open>ResultsComponent\<close>: the two differ in class names and animation
  delays only. \<open>None\<close> is a TypeError thrown while the tree is built.
\<close>

definition breakdown_row :: "string \<times> json \<Rightarrow> node" where
  "breakdown_row e =
     Elem ''div'' []
       [Elem ''span'' [] [Txt [Dyn (Some (JStr (replace_underscore (fst e))))]],
        Elem ''div'' []
          [Elem ''div'' [] [Elem ''div'' [(''style.width'', [Dyn (Some (snd e)), Lit ''%''])] []],
           Elem ''span'' [] [Txt [Dyn (Some (snd e)), Lit ''%'']]]]"

definition bullet_item :: "string \<Rightarrow> json \<Rightarrow> node" where
  "bullet_item icon x = Elem ''li'' [] [Icon icon, Elem ''span'' [] [Txt [Dyn (Some x)]]]"

definition bullet_card :: "string \<Rightarrow> string \<Rightarrow> json list \<Rightarrow> node" where
  "bullet_card icon title xs =
     Elem ''div'' []
       [Elem ''h4'' [] [Icon icon, Txt [Lit title]],
        Elem ''ul'' [] (map (bullet_item icon) xs)]"

definition keyword_group :: "string \<Rightarrow> string \<Rightarrow> json list \<Rightarrow> node" where
  "keyword_group icon title ks =
     Elem ''div'' []
       [Elem ''h5'' [] [Icon icon, Txt [Lit title]],
        Elem ''div'' [] (map (\<lambda>keyword. Elem ''span'' [] [Txt [Dyn (Some keyword)]]) ks)]"

definition results_panel :: "json \<Rightarrow> node option" where
  "results_panel r =
     do {
       breakdown \<leftarrow> Object_entries (get_field r ''score_breakdown'');
       strengths \<leftarrow> map_elements (get_field r ''strengths'');
       gaps \<leftarrow> map_elements (get_field r ''gaps'');
       recommendations \<leftarrow> map_elements (get_field r ''recommendations'');
       matching \<leftarrow> map_elements (get_field r ''matching_keywords'');
       missing \<leftarrow> map_elements (get_field r ''missing_keywords'');
       Some (Elem ''div'' []
         [Elem ''div'' []
            [Elem ''div'' []
               [Elem ''h3'' [] [Txt [Dyn (get_field r ''candidate_name'')]],
                Elem ''div'' []
                  [Elem ''div'' [] [Txt [Dyn (get_field r ''ats_score''), Lit ''%'']],
                   Icon ''CheckCircle''],
                Elem ''p'' [] [Txt [Lit ''ATS Score'']]]],
          Elem ''div'' []
            [Elem ''h4'' [] [Txt [Lit ''Score Breakdown'']],
             Elem ''div'' [] (map breakdown_row breakdown)],
          bullet_card ''CheckCircle'' ''Strengths'' strengths,
          bullet_card ''XCircle'' ''Areas for Improvement'' gaps,
          bullet_card ''AlertCircle'' ''Recommendations'' recommendations,
          Elem ''div'' []
            [Elem ''h4'' [] [Txt [Lit ''Keywords Analysis'']],
             keyword_group ''CheckCircle'' ''Matching Keywords'' matching,
             keyword_group ''XCircle'' ''Missing Keywords'' missing],
          Elem ''div'' []
            [Elem ''h4'' [] [Txt [Lit ''Overall Assessment'']],
             Elem ''p'' [] [Txt [Dyn (get_field r ''overall_assessment'')]]]])
     }"

text \<open>\<open>ResultsComponent\<close>: the placeholder while there are no results, the panel after.\<close>

definition results_placeholder :: node where
  "results_placeholder =
     Elem ''div'' []
       [Elem ''div'' []
          [Icon ''AlertCircle'',
           Elem ''p'' [] [Txt [Lit ''Results will appear here after scanning'']]]]"

definition ResultsComponent :: "json \<Rightarrow> node option" where
  "ResultsComponent r = (if \<not> truthy r then Some results_placeholder else results_panel r)"

subsection \<open>ResumePreviewComponent\<close>

definition upload_placeholder :: node where
  "upload_placeholder =
     Elem ''div'' []
       [Elem ''div'' []
          [Icon ''FileText'', Elem ''p'' [] [Txt [Lit ''Upload a resume to see preview'']]]]"

definition bars :: "nat \<Rightarrow> node list" where
  "bars n = replicate n (Elem ''div'' [] [])"

definition js_num :: "int \<Rightarrow> jsval" where
  "js_num i = Some (JNum (of_int i))"

definition js_str :: "string \<Rightarrow> jsval" where
  "js_str t = Some (JStr t)"

text \<open>\<open>a || b\<close> on strings: an empty string is falsy.\<close>

definition or_else :: "string \<Rightarrow> string \<Rightarrow> string" where
  "or_else a b = (if a = [] then b else a)"

text \<open>
  The dimmed preview behind the scan line: of the three blocks guarded by
  \<open>fileContent.type\<close>, the one that is rendered.
\<close>

fun scanning_content :: "file_content \<Rightarrow> node" where
  "scanning_content (PdfContent url) = Elem ''iframe'' [(''src'', [Dyn (js_str url)])] []"
| "scanning_content (TextContent content) =
     Elem ''div'' [] [Elem ''pre'' [] [Txt [Dyn (js_str content)]]]"
| "scanning_content (DocumentContent name sz url) =
     Elem ''div'' []
       [Elem ''div'' [] [Icon ''FileText'', Elem ''h3'' [] [Txt [Dyn (js_str name)]]],
        Elem ''div'' [] (bars 10)]"

text \<open>
  The scan line (\<open>top: `${scanPosition}%`\<close>) and the overlay with its gradient; white
  space inside the gradient's template is shortened to one blank.
\<close>

definition scan_line :: "int \<Rightarrow> node" where
  "scan_line pos =
     Elem ''div'' [] [Elem ''div'' [(''style.top'', [Dyn (js_num pos), Lit ''%''])] (bars 3)]"

definition scan_overlay :: "int \<Rightarrow> node" where
  "scan_overlay pos =
     Elem ''div''
       [(''style.background'',
         [Lit ''linear-gradient(to bottom, transparent 0%, rgba(34, 197, 94, 0.1) '',
          Dyn (js_num (max 0 (pos - 10))),
          Lit ''%, rgba(34, 197, 94, 0.2) '',
          Dyn (js_num pos),
          Lit ''%, rgba(34, 197, 94, 0.1) '',
          Dyn (js_num (min 100 (pos + 10))),
          Lit ''%, transparent 100%)''])] []"

definition progress_step :: "string \<Rightarrow> node" where
  "progress_step label = Elem ''div'' [] [Elem ''div'' [] [], Txt [Lit label]]"

text \<open>The tree returned under \<open>if (isLoading)\<close>.\<close>

definition scanning_view :: "js_file option \<Rightarrow> Preview_state \<Rightarrow> node" where
  "scanning_view f s =
     Elem ''div'' []
       [Elem ''div'' []
          [Elem ''div'' []
             [Elem ''div'' [] [Icon ''FileText'', Elem ''div'' [] []],
              Elem ''div'' []
                [Elem ''h3'' []
                   [Txt [Dyn (js_str (case f of None \<Rightarrow> ''Resume''
                                      | Some x \<Rightarrow> or_else (file_name x) ''Resume''))]],
                 Elem ''p'' []
                   [Txt (case f of None \<Rightarrow> [Lit ''Processing...'']
                         | Some x \<Rightarrow> [SizeKB (file_size x), Lit '' KB''])]]],
           Elem ''div'' [] [Elem ''div'' [] [Elem ''div'' [] [], Txt [Lit ''Scanning...'']]]],
        Elem ''div'' []
          [Elem ''div'' []
             [case fileContent s of
                Some c \<Rightarrow> Elem ''div'' [] [scanning_content c]
              | None \<Rightarrow> Elem ''div'' [] [Elem ''div'' [] [Icon ''FileText'', Elem ''div'' [] (bars 7)]]],
           scan_line (scanPosition s),
           scan_overlay (scanPosition s),
           Elem ''div'' []
             [Elem ''div'' []
                [Elem ''div'' []
                   [Elem ''div'' []
                      [Icon ''Loader2'', Elem ''span'' [] [Txt [Lit ''Scanning Resume...'']]],
                    Elem ''div'' [] [Txt [Lit ''Analyzing ATS compatibility'']]],
                 Elem ''div'' []
                   [progress_step ''Extracting content'',
                    progress_step ''Analyzing keywords'',
                    progress_step ''Calculating score'']]]]]"

text \<open>
  The file preview, shown for a file that is neither being scanned nor scanned: of
  the three blocks guarded by \<open>fileContent.type\<close>, the one that is rendered.
\<close>

fun preview_content :: "file_content \<Rightarrow> node" where
  "preview_content (PdfContent url) = Elem ''iframe'' [(''src'', [Dyn (js_str url)])] []"
| "preview_content (TextContent content) =
     Elem ''div'' [] [Elem ''pre'' [] [Txt [Dyn (js_str content)]]]"
| "preview_content (DocumentContent name sz url) =
     Elem ''div'' []
       [Elem ''div'' []
          [Icon ''FileText'',
           Elem ''h3'' [] [Txt [Dyn (js_str name)]],
           Elem ''p'' [] [Txt [SizeKB sz, Lit '' KB'']],
           Elem ''div'' []
             [Elem ''p'' [] [Txt [Lit ''Document ready for analysis'']],
              Elem ''p'' [] [Txt [Lit ''Add job description and click scan to analyze'']]],
           Elem ''a'' [(''href'', [Dyn (js_str url)]), (''download'', [Dyn (js_str name)])]
             [Icon ''Download'', Txt [Lit ''Download'']]]]"

definition loading_panel :: node where
  "loading_panel =
     Elem ''div'' [] [Elem ''div'' [] [Icon ''Loader2'', Elem ''p'' [] [Txt [Lit ''Loading preview...'']]]]"

definition error_panel :: "string \<Rightarrow> node" where
  "error_panel msg =
     Elem ''div'' [] [Elem ''div'' [] [Icon ''AlertCircle'', Elem ''p'' [] [Txt [Dyn (js_str msg)]]]]"

definition file_ready_panel :: node where
  "file_ready_panel =
     Elem ''div'' []
       [Elem ''div'' []
          [Icon ''CheckCircle'',
           Elem ''p'' [] [Txt [Lit ''File Ready'']],
           Elem ''p'' [] [Txt [Lit ''Add job description and click scan'']]]]"

text \<open>
  The chain \<open>isLoadingPreview ? ... : previewError ? ... : fileContent ? ... : ...\<close>;
  \<open>previewError\<close> is \<open>null\<close> or a string, and an empty string is falsy.
\<close>

definition file_preview_content :: "Preview_state \<Rightarrow> node" where
  "file_preview_content s =
     (if isLoadingPreview s then loading_panel
      else case previewError s of
        Some msg \<Rightarrow>
          if msg \<noteq> [] then error_panel msg
          else (case fileContent s of
                  Some c \<Rightarrow> Elem ''div'' [] [preview_content c]
                | None \<Rightarrow> file_ready_panel)
      | None \<Rightarrow>
          (case fileContent s of
             Some c \<Rightarrow> Elem ''div'' [] [preview_content c]
           | None \<Rightarrow> file_ready_panel))"

definition file_preview :: "js_file \<Rightarrow> Preview_state \<Rightarrow> node" where
  "file_preview f s =
     Elem ''div'' []
       [Elem ''div'' []
          [Elem ''div'' []
             [Icon ''FileText'',
              Elem ''div'' []
                [Elem ''h3'' [] [Txt [Dyn (js_str (file_name f))]],
                 Elem ''p'' []
                   [Txt [SizeKB (file_size f), Lit '' KB '', Bullet, Lit '' '',
                         Dyn (js_str (or_else (file_type f) ''Document''))]]]],
           Elem ''div'' [] [Icon ''Eye'', Icon ''ZoomIn'', Icon ''Download'']],
        Elem ''div'' [] [file_preview_content s]]"

text \<open>
  What one call of the component function gives: a TypeError thrown while the results
  panel is built, \<open>null\<close>, or a tree.
\<close>

datatype rendered = TypeError | Null | View node

definition ResumePreviewComponent ::
  "js_file option \<Rightarrow> bool \<Rightarrow> json \<Rightarrow> Preview_state \<Rightarrow> rendered" where
  "ResumePreviewComponent f loading r s =
     (if f = None \<and> \<not> truthy r then View upload_placeholder
      else if loading then View (scanning_view f s)
      else if truthy r then (case results_panel r of None \<Rightarrow> TypeError | Some n \<Rightarrow> View n)
      else case f of
        Some x \<Rightarrow> if \<not> loading \<and> \<not> truthy r then View (file_preview x s) else Null
      | None \<Rightarrow> Null)"

text \<open>
  What holds of the page and its upload component in every state they reach: the two
  copies of the job description and of the file agree, and a \<open>scanResume\<close> waits
  exactly while \<open>isLoading\<close> is set.
\<close>

definition app_inv :: "app \<Rightarrow> bool" where
  "app_inv a \<longleftrightarrow>
     jd (upload a) = jobDescription (page a) \<and>
     selected_file (upload a) = stored_file (page a) \<and>
     pending a = (if isLoading (page a) then 1 else 0)"

text \<open>
  What holds of the scanning animation in every state the component reaches: the
  position is an even number from 0 to 100, it is 0 unless a scan is loading, and the
  timer runs exactly while a scan is loading.
\<close>

definition anim_inv :: "bool \<times> Preview_state \<Rightarrow> bool" where
  "anim_inv c \<longleftrightarrow>
     even (scanPosition (snd c)) \<and> 0 \<le> scanPosition (snd c) \<and> scanPosition (snd c) \<le> 100 \<and>
     (fst c \<or> scanPosition (snd c) = 0) \<and> scanInterval (snd c) = fst c"


section \<open>Sample inputs\<close>

abbreviation sample_pdf :: js_file where
  "sample_pdf \<equiv> \<lparr>file_name = ''cv.pdf'', file_type = ''application/pdf'', file_size = 2048\<rparr>"

abbreviation sample_exe :: js_file where
  "sample_exe \<equiv> \<lparr>file_name = ''tool.exe'', file_type = ''application/x-msdownload'', file_size = 4096\<rparr>"

abbreviation sample_txt :: js_file where
  "sample_txt \<equiv> \<lparr>file_name = ''cv.txt'', file_type = ''text/plain'', file_size = 12\<rparr>"


section \<open>Properties\<close>

lemma dropWhile_all: "(\<forall>x \<in> set (dropWhile P s). P x) \<longleftrightarrow> (\<forall>x \<in> set s. P x)"
proof
  assume all: "\<forall>x \<in> set (dropWhile P s). P x"
  have "dropWhile P s = []"
  proof (rule ccontr)
    assume ne: "dropWhile P s \<noteq> []"
    then have "\<not> P (hd (dropWhile P s))" by (rule hd_dropWhile)
    moreover from ne have "hd (dropWhile P s) \<in> set (dropWhile P s)" by simp
    ultimately show False using all by blast
  qed
  then show "\<forall>x \<in> set s. P x" by (simp add: dropWhile_eq_Nil_conv)
next
  assume "\<forall>x \<in> set s. P x"
  then show "\<forall>x \<in> set (dropWhile P s). P x" by (blast dest: set_dropWhileD)
qed

lemma trim_empty_iff: "trim s = [] \<longleftrightarrow> (\<forall>c \<in> set s. js_whitespace c)"
  by (simp add: trim_def dropWhile_eq_Nil_conv dropWhile_all)

lemma scanResume_effects:
  "snd (scanResume s f j r) = Fetch (scanResume_request f j) # snd (scanResume_settle s' r)"
  by (simp add: scanResume_def scanResume_begin_def scanResume_end_def scanResume_settle_def
      split: fetch_result.splits sum.splits prod.splits)

lemma settle_log: "\<not> list_ex is_fetch (snd (scanResume_settle s r))"
  by (simp add: scanResume_settle_def split: fetch_result.splits sum.splits)

lemma step_inv: "app_inv a \<Longrightarrow> app_inv (fst (step a e))"
  by (cases e)
    (auto simp: app_inv_def handled_def handleDrop_def handleChange_def Upload_handleJdChange_def
      handleDrag_def handleFileUpload_def handleJdChange_def scanResume_begin_def scanResume_end_def
      scanResume_settle_def scan_button_onClick_def scan_button_disabled_def Let_def
      split: option.splits prod.splits fetch_result.splits sum.splits if_splits)

lemma run_inv: "app_inv a \<Longrightarrow> app_inv (fst (run a es))"
proof (induction es arbitrary: a)
  case Nil
  then show ?case by simp
next
  case (Cons e es)
  from Cons.prems have "app_inv (fst (step a e))" by (rule step_inv)
  then have "app_inv (fst (run (fst (step a e)) es))" by (rule Cons.IH)
  then show ?case by (simp add: split_def Let_def)
qed

lemma init_inv: "app_inv app_init"
  by (simp add: app_inv_def app_init_def ScanResume_init_def Upload_init_def)

lemma step_requests: "\<forall>x \<in> set (snd (step a e)). scan_request_ok x"
  by (cases e)
    (auto simp: handled_def handleDrop_def handleChange_def Upload_handleJdChange_def
      handleDrag_def handleFileUpload_def handleJdChange_def scanResume_begin_def scanResume_end_def
      scanResume_settle_def scan_button_onClick_def scan_button_disabled_def Let_def
      scanResume_request_def formData_file_def
      split: option.splits prod.splits fetch_result.splits sum.splits if_splits)

lemma run_requests: "\<forall>x \<in> set (snd (run a es)). scan_request_ok x"
proof (induction es arbitrary: a)
  case Nil
  then show ?case by simp
next
  case (Cons e es)
  then show ?case using step_requests [of a e]
    by (auto simp: split_def Let_def)
qed

lemma scanResume_state:
  "fst (scanResume s f j r) = (fst (scanResume_settle s r))\<lparr>isLoading := False\<rparr>"
  by (simp add: scanResume_def scanResume_begin_def scanResume_end_def scanResume_settle_def
      split: fetch_result.splits sum.splits prod.splits)

lemma settle_state:
  "fst (scanResume_settle s r) = s \<or>
   (\<exists>resp data. r = Resolved resp \<and> ok resp \<and> json_body resp = Inr data \<and>
      fst (scanResume_settle s r) = s\<lparr>results := data\<rparr>)"
  by (simp add: scanResume_settle_def split: fetch_result.splits sum.splits)

text \<open>
  Claim C1. Every run of \<open>scanResume\<close> on a resume file and a job description calls
  \<open>fetch\<close> exactly once, first of all its calls: a POST to
  \<open>http://localhost:5000/scan-resume/\<close> whose form data holds the file under \<open>file\<close>
  and the job description under \<open>job_description\<close>. Whatever else the run logs is
  \<open>console.error\<close>, and the results afterwards are the results before or the parsed
  body of the response: nothing is computed locally.
\<close>

theorem scanResume_single_post:
  "\<exists>log. snd (scanResume s (Some f) j r) =
      Fetch \<lparr>http_method = ''POST'', http_url = ''http://localhost:5000/scan-resume/'',
             http_body = [(''file'', FormFile f), (''job_description'', FormString j)]\<rparr> # log
      \<and> filter is_fetch log = []
      \<and> (results (fst (scanResume s (Some f) j r)) = results s
         \<or> (\<exists>resp. r = Resolved resp \<and> json_body resp = Inr (results (fst (scanResume s (Some f) j r)))))"
proof -
  let ?log = "snd (scanResume_settle s r)"
  have 1: "snd (scanResume s (Some f) j r) = Fetch (scanResume_request (Some f) j) # ?log"
    by (rule scanResume_effects)
  have 2: "filter is_fetch ?log = []"
    using settle_log [of s r] by (simp add: list_ex_iff filter_empty_conv)
  have 3: "results (fst (scanResume s (Some f) j r)) = results s
         \<or> (\<exists>resp. r = Resolved resp \<and> json_body resp = Inr (results (fst (scanResume s (Some f) j r))))"
    using settle_state [of s r] by (auto simp: scanResume_state)
  from 1 2 3 show ?thesis
    by (simp add: scanResume_request_def formData_file_def)
qed

theorem scanResume_single_post_witness:
  "\<exists>log. snd (scanResume ScanResume_init (Some sample_pdf) ''Rust engineer'' (Rejected ''offline'')) =
      Fetch \<lparr>http_method = ''POST'', http_url = ''http://localhost:5000/scan-resume/'',
             http_body = [(''file'', FormFile sample_pdf), (''job_description'', FormString ''Rust engineer'')]\<rparr> # log
      \<and> filter is_fetch log = []
      \<and> (results (fst (scanResume ScanResume_init (Some sample_pdf) ''Rust engineer'' (Rejected ''offline''))) = results ScanResume_init
         \<or> (\<exists>resp. Rejected ''offline'' = Resolved resp \<and> json_body resp = Inr (results (fst (scanResume ScanResume_init (Some sample_pdf) ''Rust engineer'' (Rejected ''offline''))))))"
  by (rule scanResume_single_post)

lemma settle_failure:
  "r = Rejected err \<or> (r = Resolved resp \<and> (\<not> ok resp \<or> json_body resp = Inl err'))
   \<Longrightarrow> fst (scanResume_settle s r) = s"
  by (auto simp: scanResume_settle_def split: sum.splits)

text \<open>
  Claim C3. Every run of \<open>scanResume\<close> ends with \<open>isLoading\<close> false. When the
  \<open>fetch\<close> is rejected, the response is not ok, or reading its body throws, the
  results are the ones before the run, so \<open>ResultsComponent\<close> shows what it showed:
  the placeholder when the results were \<open>null\<close>.
\<close>

theorem scanResume_failure_keeps_results:
  "isLoading (fst (scanResume s f j r')) = False \<and>
   (r = Rejected err \<or> (r = Resolved resp \<and> (\<not> ok resp \<or> json_body resp = Inl err')) \<longrightarrow>
      results (fst (scanResume s f j r)) = results s \<and>
      ResultsComponent (results (fst (scanResume s f j r))) = ResultsComponent (results s) \<and>
      (results s = JNull \<longrightarrow>
         ResultsComponent (results (fst (scanResume s f j r))) = Some results_placeholder))"
proof (intro conjI impI)
  show "isLoading (fst (scanResume s f j r')) = False"
    by (simp add: scanResume_state)
next
  assume fail: "r = Rejected err \<or> (r = Resolved resp \<and> (\<not> ok resp \<or> json_body resp = Inl err'))"
  then have same: "results (fst (scanResume s f j r)) = results s"
    by (simp add: scanResume_state settle_failure [of r err resp err' s])
  show "results (fst (scanResume s f j r)) = results s" by (rule same)
  show "ResultsComponent (results (fst (scanResume s f j r))) = ResultsComponent (results s)"
    by (simp only: same)
  assume "results s = JNull"
  with same show "ResultsComponent (results (fst (scanResume s f j r))) = Some results_placeholder"
    by (simp add: ResultsComponent_def)
qed

theorem scanResume_failure_keeps_results_witness:
  "\<not> ok \<lparr>ok = False, statusText = ''Bad Request'', json_body = Inr (JNum 7)\<rparr> \<and>
   results ScanResume_init = JNull \<and>
   isLoading (fst (scanResume ScanResume_init (Some sample_pdf) ''Rust engineer''
     (Resolved \<lparr>ok = False, statusText = ''Bad Request'', json_body = Inr (JNum 7)\<rparr>))) = False \<and>
   results (fst (scanResume ScanResume_init (Some sample_pdf) ''Rust engineer''
     (Resolved \<lparr>ok = False, statusText = ''Bad Request'', json_body = Inr (JNum 7)\<rparr>))) = JNull \<and>
   ResultsComponent (results (fst (scanResume ScanResume_init (Some sample_pdf) ''Rust engineer''
     (Resolved \<lparr>ok = False, statusText = ''Bad Request'', json_body = Inr (JNum 7)\<rparr>)))) =
     Some results_placeholder"
  using scanResume_failure_keeps_results
    [where s = ScanResume_init and f = "Some sample_pdf" and j = "''Rust engineer''"
       and r = "Resolved \<lparr>ok = False, statusText = ''Bad Request'', json_body = Inr (JNum 7)\<rparr>"
       and r' = "Resolved \<lparr>ok = False, statusText = ''Bad Request'', json_body = Inr (JNum 7)\<rparr>"
       and resp = "\<lparr>ok = False, statusText = ''Bad Request'', json_body = Inr (JNum 7)\<rparr>"]
  by (simp add: ScanResume_init_def ResultsComponent_def)

lemma handleDrop_files:
  "handleDrop u (Some (f # fs)) =
     (u\<lparr>dragActive := False, selected_file := Some f\<rparr>, [OnFileUpload (Some f) None])"
  by (simp add: handleDrop_def)

lemma handleDrop_nothing:
  "first_file files = None \<Longrightarrow> handleDrop u files = (u\<lparr>dragActive := False\<rparr>, [])"
  by (simp add: handleDrop_def)

lemma step_drop_files:
  "step a (DropEvent (Some (f # fs))) =
     (a\<lparr>page := (page a)\<lparr>stored_file := Some f\<rparr>,
        upload := (upload a)\<lparr>dragActive := False, selected_file := Some f\<rparr>\<rparr>, [])"
  by (simp add: handled_def handleDrop_files handleFileUpload_def)

lemma step_drop_nothing:
  "first_file files = None \<Longrightarrow>
   step a (DropEvent files) = (a\<lparr>upload := (upload a)\<lparr>dragActive := False\<rparr>\<rparr>, [])"
  by (simp add: handled_def handleDrop_nothing)

text \<open>
  Claim C6. A drop that carries at least one file makes the first file the selected
  file, clears \<open>dragActive\<close> and calls \<open>onFileUpload\<close> once, with that file alone, so
  the page stores it; nothing is sent. A drop with an empty file list only clears
  \<open>dragActive\<close>.
\<close>

theorem handleDrop_first_file:
  "handleDrop u (Some (f # fs)) =
     (u\<lparr>dragActive := False, selected_file := Some f\<rparr>, [OnFileUpload (Some f) None]) \<and>
   step a (DropEvent (Some (f # fs))) =
     (a\<lparr>page := (page a)\<lparr>stored_file := Some f\<rparr>,
        upload := (upload a)\<lparr>dragActive := False, selected_file := Some f\<rparr>\<rparr>, []) \<and>
   handleDrop u (Some []) = (u\<lparr>dragActive := False\<rparr>, []) \<and>
   step a (DropEvent (Some [])) = (a\<lparr>upload := (upload a)\<lparr>dragActive := False\<rparr>\<rparr>, [])"
  using handleDrop_files [of u f fs] step_drop_files [of a f fs]
    handleDrop_nothing [of "Some []" u] step_drop_nothing [of "Some []" a]
  by simp

theorem handleDrop_first_file_witness:
  "fst (step (app_init\<lparr>upload := Upload_init\<lparr>dragActive := True\<rparr>\<rparr>)
         (DropEvent (Some [sample_pdf, sample_exe]))) =
     \<lparr>page = \<lparr>stored_file = Some sample_pdf, jobDescription = [], isLoading = False, results = JNull\<rparr>,
      upload = \<lparr>dragActive = False, selected_file = Some sample_pdf, jd = []\<rparr>,
      pending = 0\<rparr>"
  using handleDrop_first_file
    [of Upload_init sample_pdf "[sample_exe]" "app_init\<lparr>upload := Upload_init\<lparr>dragActive := True\<rparr>\<rparr>"]
  by (simp add: app_init_def Upload_init_def ScanResume_init_def)

lemma jd_change_both:
  "jd (fst (Upload_handleJdChange u v)) = v \<and>
   jobDescription (fst (deliver_all p (snd (Upload_handleJdChange u v)))) = v"
  by (simp add: Upload_handleJdChange_def handleJdChange_def)

lemma step_jd_input:
  "\<not> isLoading (page a) \<Longrightarrow>
   jd (upload (fst (step a (JdInput v)))) = v \<and> jobDescription (page (fst (step a (JdInput v)))) = v"
  by (simp add: handled_def Upload_handleJdChange_def handleJdChange_def)

text \<open>
  Claim C7. In every state the page reaches, the \<open>jd\<close> of the upload component and
  the \<open>jobDescription\<close> of the page are the same string; a change of the text area
  writes its value to both.
\<close>

theorem jd_copies_agree:
  "jd (upload (fst (run app_init evs))) = jobDescription (page (fst (run app_init evs))) \<and>
   jd (fst (Upload_handleJdChange u v)) = v \<and>
   jobDescription (fst (deliver_all p (snd (Upload_handleJdChange u v)))) = v \<and>
   (\<not> isLoading (page a) \<longrightarrow>
      jd (upload (fst (step a (JdInput v)))) = v \<and>
      jobDescription (page (fst (step a (JdInput v)))) = v)"
proof -
  have "app_inv (fst (run app_init evs))"
    using init_inv by (rule run_inv)
  then have "jd (upload (fst (run app_init evs))) = jobDescription (page (fst (run app_init evs)))"
    by (simp add: app_inv_def)
  with jd_change_both [of u v p] step_jd_input [of a v] show ?thesis by blast
qed

theorem jd_copies_agree_witness:
  "\<not> isLoading (page app_init) \<and>
   jd (upload (fst (run app_init [JdInput ''Rust'', DropEvent (Some [sample_pdf]), JdInput ''Rust engineer'']))) = ''Rust engineer'' \<and>
   jobDescription (page (fst (run app_init [JdInput ''Rust'', DropEvent (Some [sample_pdf]), JdInput ''Rust engineer'']))) = ''Rust engineer'' \<and>
   jobDescription (page (fst (step app_init (JdInput ''Rust'')))) = ''Rust''"
  using jd_copies_agree
    [of "[JdInput ''Rust'', DropEvent (Some [sample_pdf]), JdInput ''Rust engineer'']"
        Upload_init "''Rust''" ScanResume_init app_init]
  by (simp add: app_init_def Upload_init_def ScanResume_init_def handled_def
      Upload_handleJdChange_def handleJdChange_def handleDrop_def handleFileUpload_def)

lemma run_pending: "pending (fst (run app_init evs)) \<le> 1"
proof -
  have "app_inv (fst (run app_init evs))"
    using init_inv by (rule run_inv)
  then show ?thesis by (simp add: app_inv_def)
qed

lemma busy_click: "app_inv a \<Longrightarrow> pending a \<noteq> 0 \<Longrightarrow> step a ClickScan = (a, [])"
  by (simp add: app_inv_def scan_button_disabled_def split: if_splits)

lemma one_argument_upload: "handleFileUpload s uploadedFile None = (s\<lparr>stored_file := uploadedFile\<rparr>, [])"
  by (simp add: handleFileUpload_def)

lemma step_drop_silent: "snd (step a (DropEvent files)) = []"
  by (simp add: handled_def handleDrop_def handleFileUpload_def Let_def split: option.splits)

lemma step_change_silent: "snd (step a (ChangeEvent files)) = []"
  by (simp add: handled_def handleChange_def handleFileUpload_def split: option.splits)

text \<open>
  Claim C9. The button is disabled exactly when no file is selected, the job
  description has nothing but white space, or a scan is loading. So every request that
  is ever sent carries a file and a job description whose trimmed value is not empty;
  at most one \<open>scanResume\<close> waits at a time, and while one waits a click does
  nothing. A call of \<open>onFileUpload\<close> with one argument stores the file and sends
  nothing, and so do a drop and a change of the file input.
\<close>

theorem scan_only_when_ready:
  "scan_button_disabled u loading =
     (selected_file u = None \<or> (\<forall>c \<in> set (jd u). js_whitespace c) \<or> loading) \<and>
   (\<forall>x \<in> set (snd (run a evs)). scan_request_ok x) \<and>
   pending (fst (run app_init evs)) \<le> 1 \<and>
   (pending (fst (run app_init evs)) \<noteq> 0 \<longrightarrow>
      step (fst (run app_init evs)) ClickScan = (fst (run app_init evs), [])) \<and>
   handleFileUpload s uploadedFile None = (s\<lparr>stored_file := uploadedFile\<rparr>, []) \<and>
   snd (step a (DropEvent files)) = [] \<and>
   snd (step a (ChangeEvent files)) = []"
proof -
  have inv: "app_inv (fst (run app_init evs))"
    using init_inv by (rule run_inv)
  have 1: "scan_button_disabled u loading =
     (selected_file u = None \<or> (\<forall>c \<in> set (jd u). js_whitespace c) \<or> loading)"
    by (simp add: scan_button_disabled_def trim_empty_iff)
  have 2: "pending (fst (run app_init evs)) \<noteq> 0 \<longrightarrow>
      step (fst (run app_init evs)) ClickScan = (fst (run app_init evs), [])"
    using busy_click [OF inv] by blast
  from 1 2 run_requests [of a evs] run_pending [of evs] one_argument_upload [of s uploadedFile]
    step_drop_silent [of a files] step_change_silent [of a files]
  show ?thesis by blast
qed

theorem scan_only_when_ready_witness:
  "scan_button_disabled \<lparr>dragActive = False, selected_file = Some sample_pdf, jd = '' ''\<rparr> False \<and>
   \<not> scan_button_disabled \<lparr>dragActive = False, selected_file = Some sample_pdf, jd = '' Rust ''\<rparr> False \<and>
   snd (run app_init [ClickScan, DropEvent (Some [sample_pdf]), ClickScan, JdInput '' Rust '', ClickScan, ClickScan])
     = [Fetch (scanResume_request (Some sample_pdf) '' Rust '')] \<and>
   pending (fst (run app_init [ClickScan, DropEvent (Some [sample_pdf]), ClickScan, JdInput '' Rust '', ClickScan, ClickScan])) = 1 \<and>
   scan_request_ok (Fetch (scanResume_request (Some sample_pdf) '' Rust ''))"
  using scan_only_when_ready
    [of "\<lparr>dragActive = False, selected_file = Some sample_pdf, jd = '' ''\<rparr>" False
        app_init
        "[ClickScan, DropEvent (Some [sample_pdf]), ClickScan, JdInput '' Rust '', ClickScan, ClickScan]"
        ScanResume_init "Some sample_pdf" "Some [sample_pdf]"]
  by (simp add: app_init_def Upload_init_def ScanResume_init_def handled_def
      Upload_handleJdChange_def handleJdChange_def handleDrop_def handleFileUpload_def
      scan_button_disabled_def scan_button_onClick_def scanResume_begin_def trim_def
      js_whitespace_def scanResume_request_def formData_file_def)

lemma drop_then_scan:
  "\<not> isLoading (page a) \<Longrightarrow> trim (jd (upload a)) \<noteq> [] \<Longrightarrow>
   snd (run a [DropEvent (Some (f # fs)), ClickScan]) =
     [Fetch (scanResume_request (Some f) (jd (upload a)))]"
  by (simp add: handleDrop_def handled_def scan_button_disabled_def scan_button_onClick_def
      handleFileUpload_def scanResume_begin_def Let_def)

text \<open>
  Claim C10. The drop handler takes a dropped file whatever its name and MIME type:
  it becomes the selected and the stored file, and with a job description that is not
  blank and no scan loading, a click on the button then posts that very file.
\<close>

theorem drop_accepts_any_file:
  "selected_file (fst (handleDrop u
      (Some (\<lparr>file_name = name, file_type = mime, file_size = sz\<rparr> # fs)))) =
     Some \<lparr>file_name = name, file_type = mime, file_size = sz\<rparr> \<and>
   stored_file (page (fst (step a
      (DropEvent (Some (\<lparr>file_name = name, file_type = mime, file_size = sz\<rparr> # fs)))))) =
     Some \<lparr>file_name = name, file_type = mime, file_size = sz\<rparr> \<and>
   (\<not> isLoading (page a) \<and> trim (jd (upload a)) \<noteq> [] \<longrightarrow>
      snd (run a [DropEvent (Some (\<lparr>file_name = name, file_type = mime, file_size = sz\<rparr> # fs)),
                  ClickScan]) =
        [Fetch \<lparr>http_method = ''POST'', http_url = ''http://localhost:5000/scan-resume/'',
                http_body = [(''file'', FormFile \<lparr>file_name = name, file_type = mime, file_size = sz\<rparr>),
                             (''job_description'', FormString (jd (upload a)))]\<rparr>])"
proof -
  let ?f = "\<lparr>file_name = name, file_type = mime, file_size = sz\<rparr>"
  have 1: "selected_file (fst (handleDrop u (Some (?f # fs)))) = Some ?f"
    by (simp add: handleDrop_files)
  have 2: "stored_file (page (fst (step a (DropEvent (Some (?f # fs)))))) = Some ?f"
    by (subst step_drop_files) simp
  have 4: "scanResume_request (Some ?f) (jd (upload a)) =
      \<lparr>http_method = ''POST'', http_url = ''http://localhost:5000/scan-resume/'',
       http_body = [(''file'', FormFile ?f), (''job_description'', FormString (jd (upload a)))]\<rparr>"
    by (simp add: scanResume_request_def formData_file_def)
  have 3: "\<not> isLoading (page a) \<and> trim (jd (upload a)) \<noteq> [] \<longrightarrow>
      snd (run a [DropEvent (Some (?f # fs)), ClickScan]) =
        [Fetch \<lparr>http_method = ''POST'', http_url = ''http://localhost:5000/scan-resume/'',
                http_body = [(''file'', FormFile ?f), (''job_description'', FormString (jd (upload a)))]\<rparr>]"
    using drop_then_scan [of a ?f fs] unfolding 4 by blast
  from 1 2 3 show ?thesis by blast
qed

theorem drop_accepts_any_file_witness:
  "\<not> isLoading (page (fst (step app_init (JdInput ''Rust engineer'')))) \<and>
   trim (jd (upload (fst (step app_init (JdInput ''Rust engineer''))))) \<noteq> [] \<and>
   snd (run (fst (step app_init (JdInput ''Rust engineer'')))
          [DropEvent (Some [sample_exe]), ClickScan]) =
     [Fetch \<lparr>http_method = ''POST'', http_url = ''http://localhost:5000/scan-resume/'',
             http_body = [(''file'', FormFile sample_exe),
                          (''job_description'', FormString ''Rust engineer'')]\<rparr>]"
  using drop_accepts_any_file
    [of Upload_init "''tool.exe''" "''application/x-msdownload''" 4096 "[]"
        "fst (step app_init (JdInput ''Rust engineer''))"]
  by (simp add: app_init_def Upload_init_def ScanResume_init_def handled_def
      Upload_handleJdChange_def handleJdChange_def trim_def js_whitespace_def)

lemma scan_tick_range:
  "even p \<Longrightarrow> 0 \<le> p \<Longrightarrow> p \<le> 100 \<Longrightarrow>
   even (scan_tick p) \<and> 0 \<le> scan_tick p \<and> scan_tick p \<le> 100"
  unfolding scan_tick_def by presburger

lemma mount_inv: "anim_inv (mount b)"
  by (simp add: anim_inv_def mount_def scan_effect_def Preview_init_def)

lemma anim_step_inv: "anim_inv c \<Longrightarrow> anim_inv (anim_step c e)"
proof (cases c)
  case (Pair l s)
  assume inv: "anim_inv c"
  show ?thesis
  proof (cases e)
    case (Rerender b)
    with Pair inv show ?thesis
      by (auto simp: anim_inv_def scan_effect_def scan_cleanup_def)
  next
    case IntervalTick
    with Pair inv scan_tick_range [of "scanPosition s"] show ?thesis
      by (auto simp: anim_inv_def)
  qed
qed

lemma anim_run_inv: "anim_inv c \<Longrightarrow> anim_inv (anim_run c evs)"
  unfolding anim_run_def
  by (induction evs arbitrary: c) (simp_all add: anim_step_inv)

lemma scan_tick_iterate: "(scan_tick ^^ k) 0 = 2 * int (k mod 51)"
proof (induction k)
  case 0
  show ?case by simp
next
  case (Suc k)
  define m where "m = k mod 51"
  have m: "m < 51" by (simp add: m_def)
  have "(scan_tick ^^ Suc k) 0 = scan_tick (2 * int m)"
    using Suc by (simp add: m_def)
  also have "\<dots> = (if m = 50 then 0 else 2 * int m + 2)"
    using m by (auto simp: scan_tick_def)
  also have "\<dots> = 2 * int (Suc k mod 51)"
    by (simp add: mod_Suc m_def)
  finally show ?case .
qed

lemma scan_line_top: "node_values (scan_line p) = [Some (JNum (of_int p))]"
  by (simp add: scan_line_def bars_def js_num_def)

text \<open>
  Claim C5. However the component is mounted, rendered again and ticked, the scan
  position is an even integer from 0 to 100, and it is 0 whenever no scan is loading;
  the timer runs exactly while a scan is loading. A tick maps \<open>p\<close> to 0 if
  \<open>p \<ge> 100\<close> and to \<open>p + 2\<close> otherwise, so \<open>k\<close> ticks from 0 give
  \<open>2 * (k mod 51)\<close>; the end of loading resets the position to 0. The \<open>top\<close> of
  the scan line is this position, in percent.
\<close>

theorem scan_position_even_in_range:
  "even (scanPosition (snd (anim_run (mount b) evs))) \<and>
   0 \<le> scanPosition (snd (anim_run (mount b) evs)) \<and>
   scanPosition (snd (anim_run (mount b) evs)) \<le> 100 \<and>
   (fst (anim_run (mount b) evs) \<or> scanPosition (snd (anim_run (mount b) evs)) = 0) \<and>
   scanInterval (snd (anim_run (mount b) evs)) = fst (anim_run (mount b) evs) \<and>
   (scan_tick ^^ k) 0 = 2 * int (k mod 51) \<and>
   scan_tick p = (if p \<ge> 100 then 0 else p + 2) \<and>
   scanPosition (snd (anim_step (True, s) (Rerender False))) = 0 \<and>
   node_values (scan_line (scanPosition (snd (anim_run (mount b) evs)))) =
     [Some (JNum (of_int (scanPosition (snd (anim_run (mount b) evs)))))]"
proof -
  have "anim_inv (anim_run (mount b) evs)"
    using mount_inv by (rule anim_run_inv)
  then have
    "even (scanPosition (snd (anim_run (mount b) evs)))"
    "0 \<le> scanPosition (snd (anim_run (mount b) evs))"
    "scanPosition (snd (anim_run (mount b) evs)) \<le> 100"
    "fst (anim_run (mount b) evs) \<or> scanPosition (snd (anim_run (mount b) evs)) = 0"
    "scanInterval (snd (anim_run (mount b) evs)) = fst (anim_run (mount b) evs)"
    by (simp_all add: anim_inv_def)
  moreover have "scanPosition (snd (anim_step (True, s) (Rerender False))) = 0"
    by (simp add: scan_effect_def scan_cleanup_def)
  moreover have "scan_tick p = (if p \<ge> 100 then 0 else p + 2)"
    by (simp add: scan_tick_def)
  ultimately show ?thesis
    using scan_tick_iterate [of k] scan_line_top by blast
qed

theorem scan_position_even_in_range_witness:
  "scanPosition (snd (anim_run (mount False) [Rerender True, IntervalTick, IntervalTick, IntervalTick])) = 6 \<and>
   scanPosition (snd (anim_run (mount False) [Rerender True, IntervalTick, Rerender False, IntervalTick])) = 0 \<and>
   (scan_tick ^^ 50) 0 = 100 \<and> (scan_tick ^^ 51) 0 = 0 \<and> scan_tick 100 = 0"
  using scan_position_even_in_range
    [of False "[Rerender True, IntervalTick, IntervalTick, IntervalTick]" 50 100 Preview_init]
    scan_position_even_in_range
    [of False "[Rerender True, IntervalTick, Rerender False, IntervalTick]" 51 100 Preview_init]
  by (simp add: anim_run_def mount_def scan_effect_def scan_cleanup_def scan_tick_def Preview_init_def)

lemma generatePreview_finally: "isLoadingPreview (fst (generatePreview s f url text)) = False"
  by (simp add: generatePreview_def split_def Let_def)

lemma generatePreview_returns:
  "fileContent (fst (generatePreview s f (Inr u) (Inr t))) =
     Some (if file_type f = ''application/pdf'' then PdfContent u
           else if str_includes (file_type f) ''text'' then TextContent t
           else DocumentContent (file_name f) (file_size f) u) \<and>
   previewError (fst (generatePreview s f (Inr u) (Inr t))) = None"
  by (simp add: generatePreview_def generatePreview_try_def Let_def)

lemma generatePreview_throws:
  assumes "url = Inl err \<or>
           (file_type f \<noteq> ''application/pdf'' \<and> str_includes (file_type f) ''text'' \<and> text = Inl err)"
  shows "previewError (fst (generatePreview s f url text)) = Some ''Failed to load preview''"
    and "fileContent (fst (generatePreview s f url text)) = fileContent s"
  using assms
  by (auto simp: generatePreview_def generatePreview_try_def preview_failed_def Let_def
      split: sum.splits)

lemma error_panel_shown:
  "\<not> isLoadingPreview s \<Longrightarrow> previewError s = Some ''Failed to load preview'' \<Longrightarrow>
   file_preview_content s = error_panel ''Failed to load preview''"
  by (simp add: file_preview_content_def)

lemma preview_branch:
  "\<not> truthy r \<Longrightarrow> ResumePreviewComponent (Some f) False r s = View (file_preview f s)"
  by (simp add: ResumePreviewComponent_def)

lemma pdf_not_text: "\<not> str_includes ''application/pdf'' ''text''"
  by simp

text \<open>
  Claim C8. Every run of \<open>generatePreview\<close> ends with \<open>isLoadingPreview\<close> false. A run
  in which nothing throws leaves a preview of type \<open>pdf\<close> for the MIME type
  \<open>application/pdf\<close>, \<open>text\<close> for a MIME type containing \<open>text\<close>, \<open>document\<close>
  otherwise, and no error; the first two cases exclude each other. When
  \<open>createObjectURL\<close> throws, or reading a text file does, \<open>previewError\<close> is
  \<open>Failed to load preview\<close> and the file preview shows the error panel in place of
  a preview.
\<close>

theorem generatePreview_classifies:
  "isLoadingPreview (fst (generatePreview s f url text)) = False \<and>
   map_option content_type (fileContent (fst (generatePreview s f (Inr u) (Inr t)))) =
     Some (if file_type f = ''application/pdf'' then ''pdf''
           else if str_includes (file_type f) ''text'' then ''text''
           else ''document'') \<and>
   previewError (fst (generatePreview s f (Inr u) (Inr t))) = None \<and>
   \<not> str_includes ''application/pdf'' ''text'' \<and>
   (url = Inl err \<or>
    (file_type f \<noteq> ''application/pdf'' \<and> str_includes (file_type f) ''text'' \<and> text = Inl err) \<longrightarrow>
      previewError (fst (generatePreview s f url text)) = Some ''Failed to load preview'' \<and>
      file_preview_content (fst (generatePreview s f url text)) =
        error_panel ''Failed to load preview'' \<and>
      (\<not> truthy r \<longrightarrow>
         ResumePreviewComponent (Some f) False r (fst (generatePreview s f url text)) =
           View (Elem ''div'' []
             [Elem ''div'' []
                [Elem ''div'' []
                   [Icon ''FileText'',
                    Elem ''div'' []
                      [Elem ''h3'' [] [Txt [Dyn (js_str (file_name f))]],
                       Elem ''p'' []
                         [Txt [SizeKB (file_size f), Lit '' KB '', Bullet, Lit '' '',
                               Dyn (js_str (or_else (file_type f) ''Document''))]]]],
                 Elem ''div'' [] [Icon ''Eye'', Icon ''ZoomIn'', Icon ''Download'']],
              Elem ''div'' [] [error_panel ''Failed to load preview'']])))"
proof -
  let ?s = "fst (generatePreview s f url text)"
  have fin: "isLoadingPreview ?s = False" by (rule generatePreview_finally)
  have cls: "map_option content_type (fileContent (fst (generatePreview s f (Inr u) (Inr t)))) =
     Some (if file_type f = ''application/pdf'' then ''pdf''
           else if str_includes (file_type f) ''text'' then ''text''
           else ''document'')"
    using generatePreview_returns [of s f u t] by simp
  have noerr: "previewError (fst (generatePreview s f (Inr u) (Inr t))) = None"
    using generatePreview_returns [of s f u t] by simp
  have thrown: "previewError ?s = Some ''Failed to load preview'' \<and>
      file_preview_content ?s = error_panel ''Failed to load preview'' \<and>
      (\<not> truthy r \<longrightarrow> ResumePreviewComponent (Some f) False r ?s =
           View (Elem ''div'' []
             [Elem ''div'' []
                [Elem ''div'' []
                   [Icon ''FileText'',
                    Elem ''div'' []
                      [Elem ''h3'' [] [Txt [Dyn (js_str (file_name f))]],
                       Elem ''p'' []
                         [Txt [SizeKB (file_size f), Lit '' KB '', Bullet, Lit '' '',
                               Dyn (js_str (or_else (file_type f) ''Document''))]]]],
                 Elem ''div'' [] [Icon ''Eye'', Icon ''ZoomIn'', Icon ''Download'']],
              Elem ''div'' [] [error_panel ''Failed to load preview'']]))"
    if t: "url = Inl err \<or>
      (file_type f \<noteq> ''application/pdf'' \<and> str_includes (file_type f) ''text'' \<and> text = Inl err)"
  proof -
    have pe: "previewError ?s = Some ''Failed to load preview''"
      using t by (rule generatePreview_throws(1))
    have ep: "file_preview_content ?s = error_panel ''Failed to load preview''"
      using fin pe by (simp add: error_panel_shown)
    have "ResumePreviewComponent (Some f) False r ?s = View (file_preview f ?s)" if "\<not> truthy r"
      using that by (rule preview_branch)
    then show ?thesis using pe ep by (simp add: file_preview_def)
  qed
  from fin cls noerr pdf_not_text thrown show ?thesis by blast
qed

theorem generatePreview_classifies_witness:
  "(sample_txt, Inl ''NotReadableError'' :: string + string) = (sample_txt, Inl ''NotReadableError'') \<and>
   file_type sample_txt \<noteq> ''application/pdf'' \<and> str_includes (file_type sample_txt) ''text'' \<and>
   \<not> truthy JNull \<and>
   fst (generatePreview Preview_init sample_txt (Inr ''blob:1'') (Inl ''NotReadableError'')) =
     Preview_init\<lparr>fileUrl := Some ''blob:1'', previewError := Some ''Failed to load preview''\<rparr> \<and>
   file_preview_content
     (fst (generatePreview Preview_init sample_txt (Inr ''blob:1'') (Inl ''NotReadableError''))) =
     error_panel ''Failed to load preview'' \<and>
   map_option content_type
     (fileContent (fst (generatePreview Preview_init sample_txt (Inr ''blob:1'') (Inr ''Ada, engineer'')))) =
     Some ''text'' \<and>
   map_option content_type
     (fileContent (fst (generatePreview Preview_init sample_pdf (Inr ''blob:2'') (Inr [])))) =
     Some ''pdf'' \<and>
   map_option content_type
     (fileContent (fst (generatePreview Preview_init sample_exe (Inr ''blob:3'') (Inr [])))) =
     Some ''document''"
  using generatePreview_classifies
    [of Preview_init sample_txt "Inr ''blob:1''" "Inl ''NotReadableError''" "''blob:1''"
        "''Ada, engineer''" "''NotReadableError''" JNull]
    generatePreview_classifies
    [of Preview_init sample_pdf "Inr ''blob:2''" "Inr []" "''blob:2''" "[]" "[]" JNull]
    generatePreview_classifies
    [of Preview_init sample_exe "Inr ''blob:3''" "Inr []" "''blob:3''" "[]" "[]" JNull]
  by (simp add: generatePreview_def generatePreview_try_def preview_failed_def Preview_init_def
      Let_def file_preview_content_def)














lemma ticks_move_line_only:
  "scanInterval s \<Longrightarrow>
   \<exists>p. anim_run (l, s) (replicate n IntervalTick) = (l, s\<lparr>scanPosition := p\<rparr>)"
proof (induction n arbitrary: s)
  case 0
  have "anim_run (l, s) (replicate 0 IntervalTick) = (l, s\<lparr>scanPosition := scanPosition s\<rparr>)"
    by (simp add: anim_run_def)
  then show ?case by blast
next
  case (Suc n)
  let ?s = "s\<lparr>scanPosition := scan_tick (scanPosition s)\<rparr>"
  from Suc.prems have "scanInterval ?s" by simp
  then obtain p where "anim_run (l, ?s) (replicate n IntervalTick) = (l, ?s\<lparr>scanPosition := p\<rparr>)"
    using Suc.IH by blast
  with Suc.prems
  have "anim_run (l, s) (replicate (Suc n) IntervalTick) = (l, s\<lparr>scanPosition := p\<rparr>)"
    by (simp add: anim_run_def)
  then show ?case by blast
qed

lemma scan_cycle_restores:
  assumes "anim_inv c" and "\<not> fst c"
  shows "anim_run c (Rerender True # replicate n IntervalTick @ [Rerender False]) = c"
proof -
  obtain s where c: "c = (False, s)" using assms(2) by (cases c) simp
  from assms(1) c have s: "scanPosition s = 0" "scanInterval s = False"
    by (simp_all add: anim_inv_def)
  let ?s1 = "s\<lparr>scanInterval := True\<rparr>"
  have 1: "anim_step c (Rerender True) = (True, ?s1)"
    by (simp add: c scan_effect_def scan_cleanup_def)
  obtain p where 2: "anim_run (True, ?s1) (replicate n IntervalTick) = (True, ?s1\<lparr>scanPosition := p\<rparr>)"
    using ticks_move_line_only [of ?s1 True n] by auto
  have 3: "anim_step (True, ?s1\<lparr>scanPosition := p\<rparr>) (Rerender False) = (False, s)"
    using s by (simp add: scan_effect_def scan_cleanup_def)
  have "anim_run c (Rerender True # replicate n IntervalTick @ [Rerender False]) =
      anim_step (anim_run (anim_step c (Rerender True)) (replicate n IntervalTick)) (Rerender False)"
    by (simp add: anim_run_def)
  also have "\<dots> = (False, s)" by (simp only: 1 2 3)
  finally show ?thesis by (simp add: c)
qed

lemma step_click_frame:
  "upload (fst (step a ClickScan)) = upload a \<and>
   stored_file (page (fst (step a ClickScan))) = stored_file (page a) \<and>
   jobDescription (page (fst (step a ClickScan))) = jobDescription (page a)"
  by (simp add: handled_def scan_button_onClick_def handleFileUpload_def scanResume_begin_def)

lemma step_settled_frame:
  "upload (fst (step a (FetchSettled r))) = upload a \<and>
   stored_file (page (fst (step a (FetchSettled r)))) = stored_file (page a) \<and>
   jobDescription (page (fst (step a (FetchSettled r)))) = jobDescription (page a)"
  by (simp add: scanResume_end_def scanResume_settle_def
      split: fetch_result.splits sum.splits prod.splits)

text \<open>
  Claim C4. A run of \<open>scanResume\<close> changes \<open>isLoading\<close> and \<open>results\<close> and no other
  cell of the page: the stored file and the job description are as before, its first
  half only sets \<open>isLoading\<close>, and all it does outside is one \<open>fetch\<close> and at most
  one \<open>console.error\<close>. Neither the click that starts a scan nor the settling of its
  \<open>fetch\<close> touches the state of the upload component. The preview component, which
  moves its scan line while \<open>isLoading\<close> is set, is after the scan in the state it was
  in before.
\<close>

theorem scanResume_frame:
  "fst (scanResume s f j r) = s\<lparr>isLoading := False, results := results (fst (scanResume s f j r))\<rparr> \<and>
   stored_file (fst (scanResume s f j r)) = stored_file s \<and>
   jobDescription (fst (scanResume s f j r)) = jobDescription s \<and>
   fst (scanResume_begin s f j) = s\<lparr>isLoading := True\<rparr> \<and>
   (\<exists>log. snd (scanResume s f j r) = Fetch (scanResume_request f j) # log \<and>
          length log \<le> 1 \<and> filter is_fetch log = []) \<and>
   upload (fst (step a ClickScan)) = upload a \<and>
   stored_file (page (fst (step a ClickScan))) = stored_file (page a) \<and>
   jobDescription (page (fst (step a ClickScan))) = jobDescription (page a) \<and>
   upload (fst (step a (FetchSettled r))) = upload a \<and>
   stored_file (page (fst (step a (FetchSettled r)))) = stored_file (page a) \<and>
   jobDescription (page (fst (step a (FetchSettled r)))) = jobDescription (page a) \<and>
   (\<not> fst (anim_run (mount b) evs) \<longrightarrow>
      anim_run (anim_run (mount b) evs) (Rerender True # replicate n IntervalTick @ [Rerender False]) =
        anim_run (mount b) evs)"
proof -
  have st: "fst (scanResume s f j r) = s\<lparr>isLoading := False, results := results (fst (scanResume s f j r))\<rparr>"
    using settle_state [of s r] by (auto simp: scanResume_state)
  have sf: "stored_file (fst (scanResume s f j r)) = stored_file s"
    by (subst st) simp
  have jo: "jobDescription (fst (scanResume s f j r)) = jobDescription s"
    by (subst st) simp
  have bg: "fst (scanResume_begin s f j) = s\<lparr>isLoading := True\<rparr>"
    by (simp add: scanResume_begin_def)
  have fx: "\<exists>log. snd (scanResume s f j r) = Fetch (scanResume_request f j) # log \<and>
          length log \<le> 1 \<and> filter is_fetch log = []"
    by (simp add: scanResume_effects [of s f j r s] scanResume_settle_def
        split: fetch_result.splits sum.splits)
  have "anim_inv (anim_run (mount b) evs)"
    using mount_inv by (rule anim_run_inv)
  then have cy: "\<not> fst (anim_run (mount b) evs) \<longrightarrow>
      anim_run (anim_run (mount b) evs) (Rerender True # replicate n IntervalTick @ [Rerender False]) =
        anim_run (mount b) evs"
    by (blast intro: scan_cycle_restores)
  from st sf jo bg fx cy step_click_frame [of a] step_settled_frame [of a r]
  show ?thesis by blast
qed

theorem scanResume_frame_witness:
  "fst (scanResume (ScanResume_init\<lparr>stored_file := Some sample_pdf, jobDescription := ''Rust engineer''\<rparr>)
         (Some sample_pdf) ''Rust engineer''
         (Resolved \<lparr>ok = True, statusText = ''OK'', json_body = Inr (JObj [(''ats_score'', JNum 82)])\<rparr>))
     = \<lparr>stored_file = Some sample_pdf, jobDescription = ''Rust engineer'', isLoading = False,
        results = JObj [(''ats_score'', JNum 82)]\<rparr> \<and>
   \<not> fst (anim_run (mount False) []) \<and>
   anim_run (anim_run (mount False) [])
     [Rerender True, IntervalTick, IntervalTick, IntervalTick, Rerender False] = mount False"
  using scanResume_frame
    [of "ScanResume_init\<lparr>stored_file := Some sample_pdf, jobDescription := ''Rust engineer''\<rparr>"
        "Some sample_pdf" "''Rust engineer''"
        "Resolved \<lparr>ok = True, statusText = ''OK'', json_body = Inr (JObj [(''ats_score'', JNum 82)])\<rparr>"
        app_init False "[]" 3]
  by (simp add: ScanResume_init_def scanResume_def scanResume_begin_def scanResume_end_def
      scanResume_settle_def anim_run_def mount_def scan_effect_def numeral_3_eq_3)

end
